theory Spec2Isabelle
  imports Main "HOL-Library.Sublist"
begin

section \<open>The net/http interface the router is written against\<close>

text \<open>
  The router sees a request through three things only: its method, the path of its URL and
  the value its context holds under the package's private key \<open>paramsKey\<close>. The
  context value is absent (\<open>None\<close>) until the dispatcher attaches one.
\<close>

record request =
  reqMethod :: string
  urlPath :: string
  ctxParams :: "string option"

text \<open>
  A response writer in the manner of a recorder: the header map, the status code of the
  first \<open>WriteHeader\<close> (\<open>None\<close> while nothing was sent) and the bytes written.
\<close>

record responseWriter =
  wHeader :: "string \<rightharpoonup> string list"
  wStatus :: "nat option"
  wBody :: string

definition newRecorder :: responseWriter where
  "newRecorder = \<lparr>wHeader = Map.empty, wStatus = None, wBody = []\<rparr>"

definition StatusNoContent :: nat where
  "StatusNoContent = 204"

definition StatusNotFound :: nat where
  "StatusNotFound = 404"

definition StatusOK :: nat where
  "StatusOK = 200"

definition HeaderSet :: "responseWriter \<Rightarrow> string \<Rightarrow> string \<Rightarrow> responseWriter" where
  "HeaderSet w k v = w\<lparr>wHeader := (wHeader w)(k \<mapsto> [v])\<rparr>"

text \<open>Only the first status code is sent; a later call changes nothing.\<close>

definition WriteHeader :: "responseWriter \<Rightarrow> nat \<Rightarrow> responseWriter" where
  "WriteHeader w code = (if wStatus w = None then w\<lparr>wStatus := Some code\<rparr> else w)"

definition Write :: "responseWriter \<Rightarrow> string \<Rightarrow> responseWriter" where
  "Write w s = (let w1 = WriteHeader w StatusOK in w1\<lparr>wBody := wBody w1 @ s\<rparr>)"

text \<open>
  \<open>http.Handler\<close>: a unit of work on a response writer and a request. The writer is
  passed in and returned, since the model has no mutation. \<open>http.HandlerFunc\<close> is the
  same type.
\<close>

type_synonym Handler = "responseWriter \<Rightarrow> request \<Rightarrow> responseWriter"

text \<open>\<open>http.NotFound\<close> replies with \<open>http.Error\<close>: plain text, status 404.\<close>

definition NotFound :: Handler where
  "NotFound w req =
     Write (WriteHeader
              (HeaderSet (HeaderSet w ''Content-Type'' ''text/plain; charset=utf-8'')
                 ''X-Content-Type-Options'' ''nosniff'')
              StatusNotFound)
       (''404 page not found'' @ [CHR 0x0A])"

section \<open>The functions of package strings that the router calls\<close>

text \<open>\<open>strings.Trim\<close> removes every leading and trailing byte that is in the cutset.\<close>

definition Trim :: "string \<Rightarrow> string \<Rightarrow> string" where
  "Trim s cutset =
     rev (dropWhile (\<lambda>c. c \<in> set cutset) (rev (dropWhile (\<lambda>c. c \<in> set cutset) s)))"

definition HasSuffix :: "string \<Rightarrow> string \<Rightarrow> bool" where
  "HasSuffix s suf = prefix (rev suf) (rev s)"

primrec Contains :: "string \<Rightarrow> string \<Rightarrow> bool" where
  "Contains [] sub = (sub = [])"
| "Contains (c # s) sub = (prefix sub (c # s) \<or> Contains s sub)"

definition TrimSuffix :: "string \<Rightarrow> string \<Rightarrow> string" where
  "TrimSuffix s suf = (if HasSuffix s suf then take (length s - length suf) s else s)"

section \<open>Types of the package\<close>

text \<open>\<open>Middleware\<close> wraps a handler.\<close>

type_synonym Middleware = "Handler \<Rightarrow> Handler"

text \<open>
  \<open>GetParams\<close>: the string stored under \<open>paramsKey\<close>, or the empty string when the
  context holds none.
\<close>

definition GetParams :: "request \<Rightarrow> string" where
  "GetParams r = (case ctxParams r of Some params \<Rightarrow> params | None \<Rightarrow> [])"

text \<open>
  The method indices \<open>mGet = iota\<close> to \<open>mAny\<close>: the six indices of the array
  \<open>handlers [mAny + 1]*routeHandler\<close>.
\<close>

datatype methodIndex = mGet | mPost | mPut | mDelete | mPatch | mAny

record routeHandler =
  handler :: Handler

text \<open>
  A route: one nullable handler per method index, and the two flags. The array of pointers
  is a total function from the six indices to optional handlers (\<open>None\<close> is nil).
\<close>

record route =
  handlers :: "methodIndex \<Rightarrow> routeHandler option"
  isParam :: bool
  isWild :: bool

text \<open>The zero value \<open>&route{}\<close>.\<close>

definition emptyRoute :: route where
  "emptyRoute = \<lparr>handlers = (\<lambda>i. None), isParam = False, isWild = False\<rparr>"

text \<open>
  The router has one function literal for \<open>staticCode\<close>, the one \<open>compileStatic\<close>
  builds. It captures the pointer \<open>r\<close>, not a copy of the tables, so it reads the
  router as it is when called. The field therefore records only which code it holds
  (\<open>None\<close> is nil); \<open>callStaticCode\<close> below runs it on the current router.
\<close>

datatype staticFunc = CompiledStatic

record Router =
  static :: "string \<rightharpoonup> route"
  params :: "string \<rightharpoonup> route"
  wildcards :: "string \<rightharpoonup> route"
  catchAll :: "route option"
  globalMWs :: "Middleware list"
  staticCode :: "staticFunc option"

text \<open>
  A group holds its prefix and its middlewares. Its pointer to the router is the router
  state that the group's operations take and return.
\<close>

record Group =
  prefix :: string
  mws :: "Middleware list"

section \<open>route.go\<close>

definition getHandler :: "route \<Rightarrow> string \<Rightarrow> routeHandler option" where
  "getHandler rt method =
     (if method = ''GET'' then handlers rt mGet
      else if method = ''POST'' then handlers rt mPost
      else if method = ''PUT'' then handlers rt mPut
      else if method = ''DELETE'' then handlers rt mDelete
      else if method = ''PATCH'' then handlers rt mPatch
      else None)"

text \<open>
  \<open>composeHandler\<close>: the loop \<open>for i := len(mws) - 1; i >= 0; i--\<close>, with
  \<open>composeLoop n\<close> the state in which the indices below \<open>n\<close> are still to be applied.
\<close>

fun composeLoop :: "nat \<Rightarrow> Middleware list \<Rightarrow> Handler \<Rightarrow> Handler" where
  "composeLoop 0 ms h = h"
| "composeLoop (Suc i) ms h = composeLoop i ms ((ms ! i) h)"

definition composeHandler :: "Handler \<Rightarrow> Middleware list \<Rightarrow> Handler" where
  "composeHandler h ms = composeLoop (length ms) ms h"

text \<open>
  \<open>compileStatic\<close>: nil when the static table is empty, the function literal
  otherwise.
\<close>

definition compileStatic :: "Router \<Rightarrow> Router" where
  "compileStatic r =
     (if dom (static r) = {} then r\<lparr>staticCode := None\<rparr>
      else r\<lparr>staticCode := Some CompiledStatic\<rparr>)"

text \<open>The body of the function literal, on the router it captured by reference.\<close>

definition callStaticCode :: "staticFunc \<Rightarrow> Router \<Rightarrow> Handler" where
  "callStaticCode f r w req =
     (let path = Trim (urlPath req) ''/'' in
      case (case static r path of
              Some rt \<Rightarrow> getHandler rt (reqMethod req)
            | None \<Rightarrow> None) of
        Some h \<Rightarrow> handler h w req
      | None \<Rightarrow>
          (case (case catchAll r of
                   Some ca \<Rightarrow> getHandler ca (reqMethod req)
                 | None \<Rightarrow> None) of
             Some h \<Rightarrow> handler h w (req\<lparr>ctxParams := Some path\<rparr>)
           | None \<Rightarrow> NotFound w req))"

text \<open>
  The variable \<open>routes\<close> of \<open>addRoute\<close> refers to one of the three tables; the
  model names the table and reads and writes it through the name.
\<close>

datatype tableName = StaticTable | ParamsTable | WildcardsTable

fun getTable :: "tableName \<Rightarrow> Router \<Rightarrow> (string \<rightharpoonup> route)" where
  "getTable StaticTable r = static r"
| "getTable ParamsTable r = params r"
| "getTable WildcardsTable r = wildcards r"

fun setTable :: "tableName \<Rightarrow> (string \<rightharpoonup> route) \<Rightarrow> Router \<Rightarrow> Router" where
  "setTable StaticTable t r = r\<lparr>static := t\<rparr>"
| "setTable ParamsTable t r = r\<lparr>params := t\<rparr>"
| "setTable WildcardsTable t r = r\<lparr>wildcards := t\<rparr>"

text \<open>
  \<open>addRoute\<close>. The callers of the package pass the indices \<open>mGet\<close> to \<open>mPatch\<close>
  only.
\<close>

definition addRoute ::
  "methodIndex \<Rightarrow> string \<Rightarrow> Handler \<Rightarrow> Middleware list \<Rightarrow> Router \<Rightarrow> Router" where
  "addRoute method path0 h ms r =
     (let path1 = Trim path0 ''/'';
          isW = HasSuffix path1 ''*'';
          isP = Contains path1 '':'';
          path = (if isW then TrimSuffix path1 ''*'' else path1);
          routes = (if isW then WildcardsTable else if isP then ParamsTable else StaticTable);
          rt = (case getTable routes r path of None \<Rightarrow> emptyRoute | Some rt0 \<Rightarrow> rt0);
          ms' = globalMWs r @ ms;
          rt' = rt\<lparr>isParam := isP, isWild := isW,
                   handlers := (handlers rt)(method := Some \<lparr>handler = composeHandler h ms'\<rparr>)\<rparr>
      in compileStatic (setTable routes ((getTable routes r)(path \<mapsto> rt')) r))"

definition GET :: "string \<Rightarrow> Handler \<Rightarrow> Middleware list \<Rightarrow> Router \<Rightarrow> Router" where
  "GET path h ms r = addRoute mGet path h ms r"

definition POST :: "string \<Rightarrow> Handler \<Rightarrow> Middleware list \<Rightarrow> Router \<Rightarrow> Router" where
  "POST path h ms r = addRoute mPost path h ms r"

definition PUT :: "string \<Rightarrow> Handler \<Rightarrow> Middleware list \<Rightarrow> Router \<Rightarrow> Router" where
  "PUT path h ms r = addRoute mPut path h ms r"

definition DELETE :: "string \<Rightarrow> Handler \<Rightarrow> Middleware list \<Rightarrow> Router \<Rightarrow> Router" where
  "DELETE path h ms r = addRoute mDelete path h ms r"

definition PATCH :: "string \<Rightarrow> Handler \<Rightarrow> Middleware list \<Rightarrow> Router \<Rightarrow> Router" where
  "PATCH path h ms r = addRoute mPatch path h ms r"

text \<open>The indices of the loops \<open>for i := mGet; i <= mPatch; i++\<close>, in order.\<close>

definition methodRange :: "methodIndex list" where
  "methodRange = [mGet, mPost, mPut, mDelete, mPatch]"

text \<open>
  \<open>addCatchAll\<close>: the route is created when absent, and each of the five slots gets a
  handler composed from the same arguments.
\<close>

definition addCatchAll :: "Handler \<Rightarrow> Middleware list \<Rightarrow> Router \<Rightarrow> Router" where
  "addCatchAll h ms r =
     (let ca = (case catchAll r of None \<Rightarrow> emptyRoute | Some c \<Rightarrow> c);
          ms' = globalMWs r @ ms;
          ca' = foldl (\<lambda>c i. c\<lparr>handlers := (handlers c)(i := Some \<lparr>handler = composeHandler h ms'\<rparr>)\<rparr>)
                  ca methodRange
      in r\<lparr>catchAll := Some ca'\<rparr>)"

definition ANY :: "string \<Rightarrow> Handler \<Rightarrow> Middleware list \<Rightarrow> Router \<Rightarrow> Router" where
  "ANY path h ms r =
     (if path = ''*'' then addCatchAll h ms r
      else foldl (\<lambda>r' i. addRoute i path h ms r') r methodRange)"

section \<open>router.go\<close>

definition New :: Router where
  "New = compileStatic
     \<lparr>static = Map.empty, params = Map.empty, wildcards = Map.empty,
      catchAll = None, globalMWs = [], staticCode = None\<rparr>"

definition ServeHTTP :: "Router \<Rightarrow> Handler" where
  "ServeHTTP r w req =
     (if reqMethod req = ''OPTIONS''
      then WriteHeader (HeaderSet w ''Allow'' ''GET,POST,PUT,DELETE,PATCH,OPTIONS'') StatusNoContent
      else
        let path = Trim (urlPath req) ''/'' in
        case staticCode r of
          Some f \<Rightarrow> callStaticCode f r w req
        | None \<Rightarrow>
            (case (case static r path of
                     Some rt \<Rightarrow> getHandler rt (reqMethod req)
                   | None \<Rightarrow> None) of
               Some h \<Rightarrow> handler h w req
             | None \<Rightarrow>
                 (case (case catchAll r of
                          Some ca \<Rightarrow> getHandler ca (reqMethod req)
                        | None \<Rightarrow> None) of
                    Some h \<Rightarrow> handler h w (req\<lparr>ctxParams := Some path\<rparr>)
                  | None \<Rightarrow> NotFound w req)))"

text \<open>
  \<open>recomposeHandlers\<close>: every non-nil slot of every route of the three tables, then of
  the catch-all, is replaced by its present handler wrapped in the whole global list; then
  the static code is compiled again.
\<close>

definition recomposeRoute :: "Middleware list \<Rightarrow> route \<Rightarrow> route" where
  "recomposeRoute g rt =
     rt\<lparr>handlers := (\<lambda>i. case handlers rt i of
                            None \<Rightarrow> None
                          | Some h \<Rightarrow> Some (h\<lparr>handler := composeHandler (handler h) g\<rparr>))\<rparr>"

definition recomposeTable :: "Middleware list \<Rightarrow> (string \<rightharpoonup> route) \<Rightarrow> (string \<rightharpoonup> route)" where
  "recomposeTable g t = (\<lambda>k. case t k of None \<Rightarrow> None | Some rt \<Rightarrow> Some (recomposeRoute g rt))"

definition recomposeHandlers :: "Router \<Rightarrow> Router" where
  "recomposeHandlers r =
     compileStatic
       (r\<lparr>static := recomposeTable (globalMWs r) (static r),
          params := recomposeTable (globalMWs r) (params r),
          wildcards := recomposeTable (globalMWs r) (wildcards r),
          catchAll := (case catchAll r of
                         None \<Rightarrow> None
                       | Some ca \<Rightarrow> Some (recomposeRoute (globalMWs r) ca))\<rparr>)"

definition Use :: "Middleware list \<Rightarrow> Router \<Rightarrow> Router" where
  "Use ms r = recomposeHandlers (r\<lparr>globalMWs := globalMWs r @ ms\<rparr>)"

section \<open>group.go\<close>

text \<open>\<open>Router.Group\<close> and the nested \<open>Group.Group\<close>; neither touches the router.\<close>

definition newGroup :: "string \<Rightarrow> Middleware list \<Rightarrow> Group" where
  "newGroup pfx ms = \<lparr>prefix = Trim pfx ''/'', mws = ms\<rparr>"

definition subGroup :: "Group \<Rightarrow> string \<Rightarrow> Middleware list \<Rightarrow> Group" where
  "subGroup g pfx ms = \<lparr>prefix = prefix g @ ''/'' @ Trim pfx ''/'', mws = mws g @ ms\<rparr>"

definition groupAddRoute ::
  "Group \<Rightarrow> methodIndex \<Rightarrow> string \<Rightarrow> Handler \<Rightarrow> Middleware list \<Rightarrow> Router \<Rightarrow> Router" where
  "groupAddRoute g method path h ms r =
     addRoute method (prefix g @ ''/'' @ Trim path ''/'') h (mws g @ ms) r"

definition groupAddCatchAll :: "Group \<Rightarrow> Handler \<Rightarrow> Middleware list \<Rightarrow> Router \<Rightarrow> Router" where
  "groupAddCatchAll g h ms r = addCatchAll h (mws g @ ms) r"

definition groupGET :: "Group \<Rightarrow> string \<Rightarrow> Handler \<Rightarrow> Middleware list \<Rightarrow> Router \<Rightarrow> Router" where
  "groupGET g path h ms r = groupAddRoute g mGet path h ms r"

definition groupPOST :: "Group \<Rightarrow> string \<Rightarrow> Handler \<Rightarrow> Middleware list \<Rightarrow> Router \<Rightarrow> Router" where
  "groupPOST g path h ms r = groupAddRoute g mPost path h ms r"

definition groupPUT :: "Group \<Rightarrow> string \<Rightarrow> Handler \<Rightarrow> Middleware list \<Rightarrow> Router \<Rightarrow> Router" where
  "groupPUT g path h ms r = groupAddRoute g mPut path h ms r"

definition groupDELETE :: "Group \<Rightarrow> string \<Rightarrow> Handler \<Rightarrow> Middleware list \<Rightarrow> Router \<Rightarrow> Router" where
  "groupDELETE g path h ms r = groupAddRoute g mDelete path h ms r"

definition groupPATCH :: "Group \<Rightarrow> string \<Rightarrow> Handler \<Rightarrow> Middleware list \<Rightarrow> Router \<Rightarrow> Router" where
  "groupPATCH g path h ms r = groupAddRoute g mPatch path h ms r"

definition groupANY :: "Group \<Rightarrow> string \<Rightarrow> Handler \<Rightarrow> Middleware list \<Rightarrow> Router \<Rightarrow> Router" where
  "groupANY g path h ms r =
     (if path = ''*'' then groupAddCatchAll g h ms r
      else foldl (\<lambda>r' i. groupAddRoute g i path h ms r') r methodRange)"

section \<open>Vocabulary of the statements\<close>

subsection \<open>Router states that the public functions can build\<close>

text \<open>
  One constructor for each exported function that changes a router. A group's calls carry
  the group value; creating a group changes nothing in the router. \<open>routerAfter cs\<close>
  is the router that \<open>New\<close> followed by the calls \<open>cs\<close>, in order, leaves.
\<close>

datatype call =
    CallGET string Handler "Middleware list"
  | CallPOST string Handler "Middleware list"
  | CallPUT string Handler "Middleware list"
  | CallDELETE string Handler "Middleware list"
  | CallPATCH string Handler "Middleware list"
  | CallANY string Handler "Middleware list"
  | CallUse "Middleware list"
  | GroupGET Group string Handler "Middleware list"
  | GroupPOST Group string Handler "Middleware list"
  | GroupPUT Group string Handler "Middleware list"
  | GroupDELETE Group string Handler "Middleware list"
  | GroupPATCH Group string Handler "Middleware list"
  | GroupANY Group string Handler "Middleware list"

fun exec :: "call \<Rightarrow> Router \<Rightarrow> Router" where
  "exec (CallGET p h ms) r = GET p h ms r"
| "exec (CallPOST p h ms) r = POST p h ms r"
| "exec (CallPUT p h ms) r = PUT p h ms r"
| "exec (CallDELETE p h ms) r = DELETE p h ms r"
| "exec (CallPATCH p h ms) r = PATCH p h ms r"
| "exec (CallANY p h ms) r = ANY p h ms r"
| "exec (CallUse ms) r = Use ms r"
| "exec (GroupGET g p h ms) r = groupGET g p h ms r"
| "exec (GroupPOST g p h ms) r = groupPOST g p h ms r"
| "exec (GroupPUT g p h ms) r = groupPUT g p h ms r"
| "exec (GroupDELETE g p h ms) r = groupDELETE g p h ms r"
| "exec (GroupPATCH g p h ms) r = groupPATCH g p h ms r"
| "exec (GroupANY g p h ms) r = groupANY g p h ms r"

definition routerAfter :: "call list \<Rightarrow> Router" where
  "routerAfter cs = foldl (\<lambda>r c. exec c r) New cs"

subsection \<open>The table and the key a registration writes\<close>

text \<open>
  The values of the locals \<open>routes\<close> and \<open>path\<close> of \<open>addRoute\<close> when it stores
  the route, as functions of the path it was called with.
\<close>

definition routeTable :: "string \<Rightarrow> tableName" where
  "routeTable path =
     (let path1 = Trim path ''/'' in
      if HasSuffix path1 ''*'' then WildcardsTable
      else if Contains path1 '':'' then ParamsTable else StaticTable)"

definition routeKey :: "string \<Rightarrow> string" where
  "routeKey path =
     (let path1 = Trim path ''/'' in
      if HasSuffix path1 ''*'' then TrimSuffix path1 ''*'' else path1)"

subsection \<open>Two invariants\<close>

text \<open>The static code is set exactly when the static table has an entry.\<close>

definition compiledIffStatic :: "Router \<Rightarrow> bool" where
  "compiledIffStatic r = ((staticCode r \<noteq> None) = (dom (static r) \<noteq> {}))"

text \<open>A catch-all route, when there is one, has a handler in each of its five method slots.\<close>

definition catchAllFull :: "Router \<Rightarrow> bool" where
  "catchAllFull r =
     (case catchAll r of
        None \<Rightarrow> True
      | Some ca \<Rightarrow> list_all (\<lambda>i. handlers ca i \<noteq> None) methodRange)"

subsection \<open>Handlers, middlewares and requests of the examples\<close>

text \<open>
  A handler that prints a text to the response, one that prints a text and then the matched
  parameter (the catch-all handler of the README), a middleware that prints its tag and
  calls the next handler, and a request with no context value.
\<close>

definition writeBody :: "string \<Rightarrow> Handler" where
  "writeBody s w req = Write w s"

definition showParams :: "string \<Rightarrow> Handler" where
  "showParams s w req = Write w (s @ GetParams req)"

definition tagMW :: "string \<Rightarrow> Middleware" where
  "tagMW s next w req = next (Write w s) req"

definition newRequest :: "string \<Rightarrow> string \<Rightarrow> request" where
  "newRequest method path = \<lparr>reqMethod = method, urlPath = path, ctxParams = None\<rparr>"

text \<open>The router of the README's first example, without its middlewares.\<close>

definition exampleCalls :: "call list" where
  "exampleCalls = [CallGET ''/api'' (writeBody ''Welcome'') [],
                   CallANY ''*'' (showParams ''Not found: '') []]"

definition exampleRouter :: Router where
  "exampleRouter =
     ANY ''*'' (showParams ''Not found: '') []
       (GET ''/api'' (writeBody ''Welcome'') [] New)"

text \<open>A route with two methods, a router with a parameterized and a wildcard route, a group.\<close>

definition twoMethods :: Router where
  "twoMethods = POST ''/api'' (writeBody ''created'') [] (GET ''/api'' (writeBody ''old'') [] New)"

definition paramAndWildcard :: Router where
  "paramAndWildcard =
     GET ''/files/*'' (showParams ''File: '') []
       (GET ''/users/:id'' (showParams ''User: '') [] New)"

definition adminGroup :: Group where
  "adminGroup = newGroup ''/admin'' [tagMW ''G'']"

section \<open>Lemmas\<close>

subsection \<open>Composition\<close>

lemma composeLoop_take:
  "n \<le> length ms \<Longrightarrow> composeLoop n ms h = foldr (\<lambda>m k. m k) (take n ms) h"
proof (induction n arbitrary: h)
  case 0
  then show ?case by simp
next
  case (Suc n)
  then have "take (Suc n) ms = take n ms @ [ms ! n]"
    by (simp add: take_Suc_conv_app_nth)
  with Suc show ?case by simp
qed

text \<open>The first middleware of the list is the outermost wrapper.\<close>

lemma composeHandler_foldr: "composeHandler h ms = foldr (\<lambda>m k. m k) ms h"
  by (simp add: composeHandler_def composeLoop_take)

lemma composeHandler_append:
  "composeHandler h (xs @ ys) = composeHandler (composeHandler h ys) xs"
  by (simp add: composeHandler_foldr)

subsection \<open>What the registration functions change\<close>

lemma compileStatic_fields [simp]:
  "static (compileStatic r) = static r"
  "params (compileStatic r) = params r"
  "wildcards (compileStatic r) = wildcards r"
  "catchAll (compileStatic r) = catchAll r"
  "globalMWs (compileStatic r) = globalMWs r"
  by (simp_all add: compileStatic_def)

lemma compiledIffStatic_compile [simp]: "compiledIffStatic (compileStatic r)"
  by (simp add: compiledIffStatic_def compileStatic_def)

lemma setTable_fields [simp]:
  "catchAll (setTable t m r) = catchAll r"
  "globalMWs (setTable t m r) = globalMWs r"
  "staticCode (setTable t m r) = staticCode r"
  by (cases t; simp)+

lemma getTable_setTable [simp]:
  "getTable t' (setTable t m r) = (if t' = t then m else getTable t' r)"
  by (cases t; cases t'; simp)

lemma getTable_compileStatic [simp]: "getTable t (compileStatic r) = getTable t r"
  by (cases t; simp)

lemma addRoute_unfold:
  "addRoute m path h ms r =
     compileStatic (setTable (routeTable path)
       ((getTable (routeTable path) r)(routeKey path \<mapsto>
          (case getTable (routeTable path) r (routeKey path) of None \<Rightarrow> emptyRoute | Some rt0 \<Rightarrow> rt0)
            \<lparr>isParam := Contains (Trim path ''/'') '':'', isWild := HasSuffix (Trim path ''/'') ''*'',
             handlers := (handlers (case getTable (routeTable path) r (routeKey path) of None \<Rightarrow> emptyRoute | Some rt0 \<Rightarrow> rt0))
                (m := Some \<lparr>handler = composeHandler h (globalMWs r @ ms)\<rparr>)\<rparr>)) r)"
  by (simp add: addRoute_def routeTable_def routeKey_def Let_def)

lemma addRoute_catchAll [simp]: "catchAll (addRoute m path h ms r) = catchAll r"
  by (simp add: addRoute_unfold)

lemma addRoute_globalMWs [simp]: "globalMWs (addRoute m path h ms r) = globalMWs r"
  by (simp add: addRoute_unfold)

lemma addRoute_compiled [simp]: "compiledIffStatic (addRoute m path h ms r)"
  by (simp add: addRoute_def Let_def)

lemma addRoute_catchAllFull [simp]: "catchAllFull (addRoute m path h ms r) = catchAllFull r"
  by (simp add: catchAllFull_def)

lemma addCatchAll_slots:
  "catchAll (addCatchAll h ms r) =
     Some ((case catchAll r of None \<Rightarrow> emptyRoute | Some c \<Rightarrow> c)
       \<lparr>handlers := (\<lambda>i. if i = mAny
                          then handlers (case catchAll r of None \<Rightarrow> emptyRoute | Some c \<Rightarrow> c) mAny
                          else Some \<lparr>handler = composeHandler h (globalMWs r @ ms)\<rparr>)\<rparr>)"
proof -
  have upd: "\<And>(c::route) v. (handlers c)(mGet := v, mPost := v, mPut := v, mDelete := v, mPatch := v)
          = (\<lambda>i. if i = mAny then handlers c mAny else v)"
  proof
    fix c :: route and v :: "routeHandler option" and i
    show "((handlers c)(mGet := v, mPost := v, mPut := v, mDelete := v, mPatch := v)) i
          = (if i = mAny then handlers c mAny else v)"
      by (cases i) simp_all
  qed
  show ?thesis
    by (simp add: addCatchAll_def methodRange_def Let_def upd)
qed

lemma addCatchAll_fields [simp]:
  "static (addCatchAll h ms r) = static r"
  "params (addCatchAll h ms r) = params r"
  "wildcards (addCatchAll h ms r) = wildcards r"
  "globalMWs (addCatchAll h ms r) = globalMWs r"
  "staticCode (addCatchAll h ms r) = staticCode r"
  by (simp_all add: addCatchAll_def Let_def)

lemma addCatchAll_compiled [simp]: "compiledIffStatic (addCatchAll h ms r) = compiledIffStatic r"
  by (simp add: compiledIffStatic_def)

lemma addCatchAll_full [simp]: "catchAllFull (addCatchAll h ms r)"
  by (simp add: catchAllFull_def addCatchAll_slots methodRange_def)

lemma recomposeRoute_slot_None [simp]:
  "(handlers (recomposeRoute g rt) i = None) = (handlers rt i = None)"
  by (simp add: recomposeRoute_def split: option.splits)

lemma dom_recomposeTable [simp]: "dom (recomposeTable g t) = dom t"
  by (auto simp: recomposeTable_def dom_def split: option.splits)

lemma Use_compiled [simp]: "compiledIffStatic (Use ms r)"
  by (simp add: Use_def recomposeHandlers_def)

lemma Use_catchAllFull [simp]: "catchAllFull (Use ms r) = catchAllFull r"
  by (simp add: Use_def recomposeHandlers_def catchAllFull_def methodRange_def split: option.splits)

lemma ANY_compiled: "compiledIffStatic r \<Longrightarrow> compiledIffStatic (ANY path h ms r)"
  by (simp add: ANY_def methodRange_def)

lemma ANY_full: "catchAllFull r \<Longrightarrow> catchAllFull (ANY path h ms r)"
  by (simp add: ANY_def methodRange_def)

lemma groupANY_compiled: "compiledIffStatic r \<Longrightarrow> compiledIffStatic (groupANY g path h ms r)"
  by (simp add: groupANY_def groupAddCatchAll_def groupAddRoute_def methodRange_def)

lemma groupANY_full: "catchAllFull r \<Longrightarrow> catchAllFull (groupANY g path h ms r)"
  by (simp add: groupANY_def groupAddCatchAll_def groupAddRoute_def methodRange_def)

lemma exec_compiled: "compiledIffStatic r \<Longrightarrow> compiledIffStatic (exec c r)"
  by (cases c)
    (simp_all add: GET_def POST_def PUT_def DELETE_def PATCH_def ANY_compiled
      groupGET_def groupPOST_def groupPUT_def groupDELETE_def groupPATCH_def
      groupAddRoute_def groupANY_compiled)

lemma exec_full: "catchAllFull r \<Longrightarrow> catchAllFull (exec c r)"
  by (cases c)
    (simp_all add: GET_def POST_def PUT_def DELETE_def PATCH_def ANY_full
      groupGET_def groupPOST_def groupPUT_def groupDELETE_def groupPATCH_def
      groupAddRoute_def groupANY_full)

subsection \<open>The invariants hold after any calls\<close>

lemma New_fields [simp]:
  "static New = Map.empty" "params New = Map.empty" "wildcards New = Map.empty"
  "catchAll New = None" "globalMWs New = []" "staticCode New = None"
  by (simp_all add: New_def compileStatic_def)

lemma routerAfter_snoc [simp]: "routerAfter (cs @ [c]) = exec c (routerAfter cs)"
  by (simp add: routerAfter_def)

lemma routerAfter_Nil [simp]: "routerAfter [] = New"
  by (simp add: routerAfter_def)

lemma routerAfter_compiled: "compiledIffStatic (routerAfter cs)"
proof (induction cs rule: rev_induct)
  case Nil
  show ?case by (simp add: compiledIffStatic_def)
next
  case (snoc c cs)
  then show ?case by (simp add: exec_compiled)
qed

lemma routerAfter_full: "catchAllFull (routerAfter cs)"
proof (induction cs rule: rev_induct)
  case Nil
  show ?case by (simp add: catchAllFull_def)
next
  case (snoc c cs)
  then show ?case by (simp add: exec_full)
qed

subsection \<open>Dispatch\<close>

text \<open>The fallback of \<open>ServeHTTP\<close> and the static code compute the same reply.\<close>

lemma ServeHTTP_compiled_same:
  "reqMethod req \<noteq> ''OPTIONS'' \<Longrightarrow> ServeHTTP r w req = callStaticCode CompiledStatic r w req"
  by (cases "staticCode r") (simp_all add: ServeHTTP_def callStaticCode_def)

lemma getHandler_not_OPTIONS [simp]: "getHandler rt ''OPTIONS'' = None"
  by (simp add: getHandler_def)

lemma getHandler_other:
  "m \<notin> {''GET'', ''POST'', ''PUT'', ''DELETE'', ''PATCH''} \<Longrightarrow> getHandler rt m = None"
  by (simp add: getHandler_def)

lemma dispatch_static:
  assumes "static r (Trim (urlPath req) ''/'') = Some rt"
    and "getHandler rt (reqMethod req) = Some h"
  shows "ServeHTTP r w req = handler h w req"
proof -
  have "reqMethod req \<noteq> ''OPTIONS''"
    using assms(2) by auto
  then show ?thesis
    using assms by (simp add: ServeHTTP_compiled_same callStaticCode_def)
qed

lemma dispatch_catchAll:
  assumes "static r (Trim (urlPath req) ''/'') = None
           \<or> (\<exists>rt. static r (Trim (urlPath req) ''/'') = Some rt
                   \<and> getHandler rt (reqMethod req) = None)"
    and "catchAll r = Some ca"
    and "getHandler ca (reqMethod req) = Some h"
  shows "ServeHTTP r w req = handler h w (req\<lparr>ctxParams := Some (Trim (urlPath req) ''/'')\<rparr>)"
proof -
  have "reqMethod req \<noteq> ''OPTIONS''"
    using assms(3) by auto
  then show ?thesis
    using assms by (auto simp: ServeHTTP_compiled_same callStaticCode_def)
qed

lemma dispatch_none:
  assumes "reqMethod req \<noteq> ''OPTIONS''"
    and "static r (Trim (urlPath req) ''/'') = None
           \<or> (\<exists>rt. static r (Trim (urlPath req) ''/'') = Some rt
                   \<and> getHandler rt (reqMethod req) = None)"
    and "catchAll r = None \<or> (\<exists>ca. catchAll r = Some ca \<and> getHandler ca (reqMethod req) = None)"
  shows "ServeHTTP r w req = NotFound w req"
  using assms by (auto simp: ServeHTTP_compiled_same callStaticCode_def)

lemma NotFound_status: "wStatus w = None \<Longrightarrow> wStatus (NotFound w req) = Some 404"
  by (simp add: NotFound_def Write_def WriteHeader_def HeaderSet_def StatusNotFound_def Let_def)

subsection \<open>Evaluating concrete routers\<close>

lemma composeHandler_Nil [simp]: "composeHandler h [] = h"
  by (simp add: composeHandler_def)

lemma setTable_tables [simp]:
  "static (setTable t m r) = (if t = StaticTable then m else static r)"
  "params (setTable t m r) = (if t = ParamsTable then m else params r)"
  "wildcards (setTable t m r) = (if t = WildcardsTable then m else wildcards r)"
  by (cases t; simp)+

lemma recomposeTable_empty [simp]: "recomposeTable g Map.empty = Map.empty"
  by (simp add: recomposeTable_def)

lemma recomposeTable_upd [simp]:
  "recomposeTable g (t(k \<mapsto> rt)) = (recomposeTable g t)(k \<mapsto> recomposeRoute g rt)"
  by (auto simp: recomposeTable_def)

lemma recomposeTable_apply:
  "recomposeTable g t k = map_option (recomposeRoute g) (t k)"
  by (simp add: recomposeTable_def split: option.splits)

lemma Use_fields [simp]:
  "static (Use ms r) = recomposeTable (globalMWs r @ ms) (static r)"
  "params (Use ms r) = recomposeTable (globalMWs r @ ms) (params r)"
  "wildcards (Use ms r) = recomposeTable (globalMWs r @ ms) (wildcards r)"
  "catchAll (Use ms r) = map_option (recomposeRoute (globalMWs r @ ms)) (catchAll r)"
  "globalMWs (Use ms r) = globalMWs r @ ms"
  by (simp_all add: Use_def recomposeHandlers_def split: option.splits)

lemmas eval_strings = Trim_def HasSuffix_def TrimSuffix_def routeTable_def routeKey_def
lemmas eval_router = GET_def POST_def ANY_def addRoute_unfold addCatchAll_slots emptyRoute_def
  recomposeRoute_def composeHandler_def
lemmas eval_serve = ServeHTTP_compiled_same callStaticCode_def getHandler_def newRequest_def
  newRecorder_def writeBody_def showParams_def tagMW_def GetParams_def Write_def WriteHeader_def
  StatusOK_def

lemma catchAllFull_handler:
  assumes "catchAllFull r" and "catchAll r = Some ca"
    and "m \<in> {''GET'', ''POST'', ''PUT'', ''DELETE'', ''PATCH''}"
  shows "\<exists>h. getHandler ca m = Some h"
  using assms by (auto simp: catchAllFull_def methodRange_def getHandler_def)

section \<open>Claims\<close>

text \<open>
  C1. Whatever the router holds, when the static table has a route under the trimmed path
  of the request and that route has a handler for the request's method (which is then one
  of GET, POST, PUT, DELETE, PATCH), serving the request is running that handler on the
  request as it came. This is so whether the static code is set or nil, and whatever the
  catch-all route is: neither plays a part.
\<close>

theorem static_route_wins:
  assumes "static r (Trim (urlPath req) ''/'') = Some rt"
    and "getHandler rt (reqMethod req) = Some h"
  shows "ServeHTTP r w req = handler h w req
         \<and> ServeHTTP (r\<lparr>catchAll := ca, staticCode := sc\<rparr>) w req = handler h w req"
  using assms by (simp add: dispatch_static)

theorem static_route_wins_witness:
  "static exampleRouter (Trim (urlPath (newRequest ''GET'' ''/api/'')) ''/'')
     = Some (emptyRoute\<lparr>handlers := (handlers emptyRoute)(mGet := Some \<lparr>handler = writeBody ''Welcome''\<rparr>)\<rparr>)
   \<and> getHandler (emptyRoute\<lparr>handlers := (handlers emptyRoute)(mGet := Some \<lparr>handler = writeBody ''Welcome''\<rparr>)\<rparr>)
        (reqMethod (newRequest ''GET'' ''/api/'')) = Some \<lparr>handler = writeBody ''Welcome''\<rparr>
   \<and> staticCode exampleRouter = Some CompiledStatic
   \<and> wBody (ServeHTTP exampleRouter newRecorder (newRequest ''GET'' ''/api/'')) = ''Welcome''
   \<and> wBody (ServeHTTP (exampleRouter\<lparr>catchAll := None, staticCode := None\<rparr>) newRecorder
              (newRequest ''GET'' ''/api/'')) = ''Welcome''"
proof -
  let ?rt = "emptyRoute\<lparr>handlers := (handlers emptyRoute)(mGet := Some \<lparr>handler = writeBody ''Welcome''\<rparr>)\<rparr>"
  let ?req = "newRequest ''GET'' ''/api/''"
  have a: "static exampleRouter (Trim (urlPath ?req) ''/'') = Some ?rt"
    by (simp add: exampleRouter_def newRequest_def eval_strings eval_router)
  have b: "getHandler ?rt (reqMethod ?req) = Some \<lparr>handler = writeBody ''Welcome''\<rparr>"
    by (simp add: getHandler_def newRequest_def)
  have c: "staticCode exampleRouter = Some CompiledStatic"
    by (simp add: exampleRouter_def eval_strings eval_router compileStatic_def)
  have d: "wBody (writeBody ''Welcome'' newRecorder ?req) = ''Welcome''"
    by (simp add: writeBody_def Write_def WriteHeader_def newRecorder_def)
  show ?thesis
    using a b c d static_route_wins [OF a b, of newRecorder None None] by simp
qed

text \<open>
  C2. In a router built by the public functions, for a request with one of the five methods
  whose trimmed path has no static handler for that method, a catch-all route, when
  registered, has a handler for the method; serving the request runs it on the request
  with the trimmed path attached, and \<open>GetParams\<close> of that request is the trimmed
  path.
\<close>

theorem catchAll_receives_path:
  assumes "reqMethod req \<in> {''GET'', ''POST'', ''PUT'', ''DELETE'', ''PATCH''}"
    and "static (routerAfter cs) (Trim (urlPath req) ''/'') = None
         \<or> (\<exists>rt. static (routerAfter cs) (Trim (urlPath req) ''/'') = Some rt
                 \<and> getHandler rt (reqMethod req) = None)"
    and "catchAll (routerAfter cs) = Some ca"
  shows "\<exists>h. getHandler ca (reqMethod req) = Some h
           \<and> ServeHTTP (routerAfter cs) w req
               = handler h w (req\<lparr>ctxParams := Some (Trim (urlPath req) ''/'')\<rparr>)
           \<and> GetParams (req\<lparr>ctxParams := Some (Trim (urlPath req) ''/'')\<rparr>)
               = Trim (urlPath req) ''/''"
proof -
  obtain h where h: "getHandler ca (reqMethod req) = Some h"
    using catchAllFull_handler [OF routerAfter_full assms(3) assms(1)] by blast
  show ?thesis
    using h dispatch_catchAll [OF assms(2) assms(3) h] by (simp add: GetParams_def)
qed

lemma routerAfter_exampleCalls: "routerAfter exampleCalls = exampleRouter"
  by (simp add: routerAfter_def exampleCalls_def exampleRouter_def)

theorem catchAll_receives_path_witness:
  "reqMethod (newRequest ''GET'' ''/random'') \<in> {''GET'', ''POST'', ''PUT'', ''DELETE'', ''PATCH''}
   \<and> static (routerAfter exampleCalls) (Trim (urlPath (newRequest ''GET'' ''/random'')) ''/'') = None
   \<and> catchAll (routerAfter exampleCalls)
       = Some (emptyRoute\<lparr>handlers := (\<lambda>i. if i = mAny then None
                                              else Some \<lparr>handler = showParams ''Not found: ''\<rparr>)\<rparr>)
   \<and> (\<exists>h. getHandler (emptyRoute\<lparr>handlers := (\<lambda>i. if i = mAny then None
                                              else Some \<lparr>handler = showParams ''Not found: ''\<rparr>)\<rparr>)
              ''GET'' = Some h
          \<and> ServeHTTP (routerAfter exampleCalls) newRecorder (newRequest ''GET'' ''/random'')
              = handler h newRecorder (newRequest ''GET'' ''/random''\<lparr>ctxParams := Some ''random''\<rparr>))
   \<and> wBody (ServeHTTP (routerAfter exampleCalls) newRecorder (newRequest ''GET'' ''/random''))
       = ''Not found: random''"
proof -
  let ?req = "newRequest ''GET'' ''/random''"
  let ?ca = "emptyRoute\<lparr>handlers := (\<lambda>i. if i = mAny then None
                                              else Some \<lparr>handler = showParams ''Not found: ''\<rparr>)\<rparr>"
  have a: "reqMethod ?req \<in> {''GET'', ''POST'', ''PUT'', ''DELETE'', ''PATCH''}"
    by (simp add: newRequest_def)
  have b: "static (routerAfter exampleCalls) (Trim (urlPath ?req) ''/'') = None"
    by (simp add: routerAfter_exampleCalls exampleRouter_def newRequest_def eval_strings eval_router)
  have c: "catchAll (routerAfter exampleCalls) = Some ?ca"
    by (simp add: routerAfter_exampleCalls exampleRouter_def eval_strings eval_router cong: if_cong)
  have t: "Trim (urlPath ?req) ''/'' = ''random''" "reqMethod ?req = ''GET''"
    by (simp_all add: newRequest_def Trim_def)
  have e: "wBody (ServeHTTP (routerAfter exampleCalls) newRecorder ?req) = ''Not found: random''"
    by (simp add: routerAfter_exampleCalls exampleRouter_def eval_strings eval_router eval_serve)
  have g: "\<exists>h. getHandler ?ca ''GET'' = Some h
          \<and> ServeHTTP (routerAfter exampleCalls) newRecorder ?req
              = handler h newRecorder (?req\<lparr>ctxParams := Some ''random''\<rparr>)"
    using catchAll_receives_path [OF a disjI1 [OF b] c, of newRecorder] unfolding t by blast
  show ?thesis
    using a b c e g by (intro conjI)
qed

text \<open>
  C4. Whatever the router holds and whatever the path, serving a request whose method is
  OPTIONS sets the header Allow to GET,POST,PUT,DELETE,PATCH,OPTIONS and sends status 204
  on a writer that has sent none, and writes no body. The reply is a function of the
  writer alone: no table is read and no handler runs.
\<close>

theorem options_fixed_reply:
  assumes "reqMethod req = ''OPTIONS''"
  shows "ServeHTTP r w req
           = WriteHeader (HeaderSet w ''Allow'' ''GET,POST,PUT,DELETE,PATCH,OPTIONS'') StatusNoContent
         \<and> wHeader (ServeHTTP r w req) ''Allow'' = Some [''GET,POST,PUT,DELETE,PATCH,OPTIONS'']
         \<and> (wStatus w = None \<longrightarrow> wStatus (ServeHTTP r w req) = Some 204)
         \<and> wBody (ServeHTTP r w req) = wBody w"
  using assms by (simp add: ServeHTTP_def WriteHeader_def HeaderSet_def StatusNoContent_def)

theorem options_fixed_reply_witness:
  "reqMethod (newRequest ''OPTIONS'' ''/nowhere'') = ''OPTIONS''
   \<and> wStatus newRecorder = None
   \<and> ServeHTTP New newRecorder (newRequest ''OPTIONS'' ''/nowhere'')
       = \<lparr>wHeader = [''Allow'' \<mapsto> [''GET,POST,PUT,DELETE,PATCH,OPTIONS'']],
          wStatus = Some 204, wBody = []\<rparr>
   \<and> ServeHTTP exampleRouter newRecorder (newRequest ''OPTIONS'' ''/api'')
       = \<lparr>wHeader = [''Allow'' \<mapsto> [''GET,POST,PUT,DELETE,PATCH,OPTIONS'']],
          wStatus = Some 204, wBody = []\<rparr>"
proof -
  have a: "reqMethod (newRequest ''OPTIONS'' ''/nowhere'') = ''OPTIONS''"
    and b: "reqMethod (newRequest ''OPTIONS'' ''/api'') = ''OPTIONS''"
    by (simp_all add: newRequest_def)
  show ?thesis
    using a options_fixed_reply [OF a, of New newRecorder]
      options_fixed_reply [OF b, of exampleRouter newRecorder]
    by (simp add: newRecorder_def WriteHeader_def HeaderSet_def StatusNoContent_def)
qed

text \<open>
  C5. For a request that is not OPTIONS: when its method is none of the five, or when the
  static table has no handler for the method under the trimmed path and the catch-all
  route is absent or has no handler for the method, serving it is \<open>http.NotFound\<close>
  (status 404 on a writer that has sent none); no handler of the router runs.
\<close>

theorem no_handler_not_found:
  assumes "reqMethod req \<noteq> ''OPTIONS''"
    and "reqMethod req \<notin> {''GET'', ''POST'', ''PUT'', ''DELETE'', ''PATCH''}
         \<or> ((static r (Trim (urlPath req) ''/'') = None
              \<or> (\<exists>rt. static r (Trim (urlPath req) ''/'') = Some rt
                      \<and> getHandler rt (reqMethod req) = None))
            \<and> (catchAll r = None
              \<or> (\<exists>ca. catchAll r = Some ca \<and> getHandler ca (reqMethod req) = None)))"
  shows "ServeHTTP r w req = NotFound w req
         \<and> (wStatus w = None \<longrightarrow> wStatus (ServeHTTP r w req) = Some 404)"
proof -
  have "ServeHTTP r w req = NotFound w req"
  proof (cases "reqMethod req \<in> {''GET'', ''POST'', ''PUT'', ''DELETE'', ''PATCH''}")
    case True
    with assms show ?thesis
      by (intro dispatch_none) blast+
  next
    case False
    then have none: "\<And>rt. getHandler rt (reqMethod req) = None"
      by (rule getHandler_other)
    have s: "static r (Trim (urlPath req) ''/'') = None
             \<or> (\<exists>rt. static r (Trim (urlPath req) ''/'') = Some rt
                     \<and> getHandler rt (reqMethod req) = None)"
      using none by (cases "static r (Trim (urlPath req) ''/'')") simp_all
    have c: "catchAll r = None
             \<or> (\<exists>ca. catchAll r = Some ca \<and> getHandler ca (reqMethod req) = None)"
      using none by (cases "catchAll r") simp_all
    show ?thesis
      by (rule dispatch_none [OF assms(1) s c])
  qed
  then show ?thesis
    by (simp add: NotFound_status)
qed

theorem no_handler_not_found_witness:
  "reqMethod (newRequest ''HEAD'' ''/api'') \<noteq> ''OPTIONS''
   \<and> reqMethod (newRequest ''HEAD'' ''/api'') \<notin> {''GET'', ''POST'', ''PUT'', ''DELETE'', ''PATCH''}
   \<and> ServeHTTP exampleRouter newRecorder (newRequest ''HEAD'' ''/api'')
       = NotFound newRecorder (newRequest ''HEAD'' ''/api'')
   \<and> reqMethod (newRequest ''POST'' ''/api'') \<noteq> ''OPTIONS''
   \<and> (\<exists>rt. static (GET ''/api'' (writeBody ''Welcome'') [] New)
              (Trim (urlPath (newRequest ''POST'' ''/api'')) ''/'') = Some rt
          \<and> getHandler rt (reqMethod (newRequest ''POST'' ''/api'')) = None)
   \<and> catchAll (GET ''/api'' (writeBody ''Welcome'') [] New) = None
   \<and> ServeHTTP (GET ''/api'' (writeBody ''Welcome'') [] New) newRecorder (newRequest ''POST'' ''/api'')
       = NotFound newRecorder (newRequest ''POST'' ''/api'')
   \<and> wStatus (ServeHTTP (GET ''/api'' (writeBody ''Welcome'') [] New) newRecorder
        (newRequest ''POST'' ''/api'')) = Some 404"
proof -
  let ?r = "GET ''/api'' (writeBody ''Welcome'') [] New"
  have a: "reqMethod (newRequest ''HEAD'' ''/api'') \<noteq> ''OPTIONS''"
    and b: "reqMethod (newRequest ''HEAD'' ''/api'') \<notin> {''GET'', ''POST'', ''PUT'', ''DELETE'', ''PATCH''}"
    and c: "reqMethod (newRequest ''POST'' ''/api'') \<noteq> ''OPTIONS''"
    by (simp_all add: newRequest_def)
  have d: "\<exists>rt. static ?r (Trim (urlPath (newRequest ''POST'' ''/api'')) ''/'') = Some rt
          \<and> getHandler rt (reqMethod (newRequest ''POST'' ''/api'')) = None"
    by (simp add: newRequest_def eval_strings eval_router getHandler_def)
  have e: "catchAll ?r = None"
    by (simp add: GET_def)
  have f: "wStatus newRecorder = None"
    by (simp add: newRecorder_def)
  show ?thesis
    using a b c d e f
      no_handler_not_found [OF a disjI1 [OF b], of exampleRouter newRecorder]
      no_handler_not_found [OF c disjI2 [OF conjI [OF disjI2 [OF d] disjI1 [OF e]]], of newRecorder]
    by (simp add: NotFound_status)
qed

lemma addRoute_getTable:
  "getTable t (addRoute m path h ms r) =
     (if t = routeTable path
      then (getTable t r)(routeKey path \<mapsto>
        (case getTable t r (routeKey path) of None \<Rightarrow> emptyRoute | Some rt0 \<Rightarrow> rt0)
          \<lparr>isParam := Contains (Trim path ''/'') '':'', isWild := HasSuffix (Trim path ''/'') ''*'',
           handlers := (handlers (case getTable t r (routeKey path) of None \<Rightarrow> emptyRoute | Some rt0 \<Rightarrow> rt0))
              (m := Some \<lparr>handler = composeHandler h (globalMWs r @ ms)\<rparr>)\<rparr>)
      else getTable t r)"
  by (simp add: addRoute_unfold)

text \<open>
  C6. Registering a method on a path whose route exists already keeps the route in its
  table under its key, puts the newly composed handler in that method's slot and leaves
  the slot of every other method as it was; every other key of that table, the other two
  tables, the catch-all route and the global middlewares are unchanged.
\<close>

theorem reregister_replaces_one_slot:
  assumes "getTable (routeTable path) r (routeKey path) = Some rt0"
  shows "(\<exists>rt1. getTable (routeTable path) (addRoute m path h ms r) (routeKey path) = Some rt1
            \<and> handlers rt1 m = Some \<lparr>handler = composeHandler h (globalMWs r @ ms)\<rparr>
            \<and> (\<forall>m'. m' \<noteq> m \<longrightarrow> handlers rt1 m' = handlers rt0 m'))
         \<and> (\<forall>t k. (t, k) \<noteq> (routeTable path, routeKey path)
               \<longrightarrow> getTable t (addRoute m path h ms r) k = getTable t r k)
         \<and> catchAll (addRoute m path h ms r) = catchAll r
         \<and> globalMWs (addRoute m path h ms r) = globalMWs r"
  using assms by (simp add: addRoute_getTable)

theorem reregister_replaces_one_slot_witness:
  "getTable (routeTable ''/api'') twoMethods (routeKey ''/api'')
     = Some (emptyRoute\<lparr>handlers := (handlers emptyRoute)
               (mGet := Some \<lparr>handler = writeBody ''old''\<rparr>,
                mPost := Some \<lparr>handler = writeBody ''created''\<rparr>)\<rparr>)
   \<and> static (addRoute mGet ''/api'' (writeBody ''new'') [] twoMethods) ''api''
     = Some (emptyRoute\<lparr>handlers := (handlers emptyRoute)
               (mGet := Some \<lparr>handler = writeBody ''new''\<rparr>,
                mPost := Some \<lparr>handler = writeBody ''created''\<rparr>)\<rparr>)
   \<and> wBody (ServeHTTP (addRoute mGet ''/api'' (writeBody ''new'') [] twoMethods) newRecorder
        (newRequest ''POST'' ''/api'')) = ''created''
   \<and> wBody (ServeHTTP (addRoute mGet ''/api'' (writeBody ''new'') [] twoMethods) newRecorder
        (newRequest ''GET'' ''/api'')) = ''new''"
proof -
  let ?rt0 = "emptyRoute\<lparr>handlers := (handlers emptyRoute)
               (mGet := Some \<lparr>handler = writeBody ''old''\<rparr>,
                mPost := Some \<lparr>handler = writeBody ''created''\<rparr>)\<rparr>"
  have a: "getTable (routeTable ''/api'') twoMethods (routeKey ''/api'') = Some ?rt0"
    by (simp add: twoMethods_def eval_strings eval_router)
  have b: "static (addRoute mGet ''/api'' (writeBody ''new'') [] twoMethods) ''api''
     = Some (emptyRoute\<lparr>handlers := (handlers emptyRoute)
               (mGet := Some \<lparr>handler = writeBody ''new''\<rparr>,
                mPost := Some \<lparr>handler = writeBody ''created''\<rparr>)\<rparr>)"
    by (simp add: twoMethods_def eval_strings eval_router fun_upd_twist)
  have c: "wBody (ServeHTTP (addRoute mGet ''/api'' (writeBody ''new'') [] twoMethods) newRecorder
        (newRequest ''POST'' ''/api'')) = ''created''"
    by (simp add: twoMethods_def eval_strings eval_router eval_serve)
  have d: "wBody (ServeHTTP (addRoute mGet ''/api'' (writeBody ''new'') [] twoMethods) newRecorder
        (newRequest ''GET'' ''/api'')) = ''new''"
    by (simp add: twoMethods_def eval_strings eval_router eval_serve)
  show ?thesis
    using a b c d
      reregister_replaces_one_slot [OF a, of mGet "writeBody ''new''" "[]"]
    by simp
qed

lemma ServeHTTP_depends:
  assumes "static r' = static r" and "catchAll r' = catchAll r"
  shows "ServeHTTP r' w req = ServeHTTP r w req"
proof (cases "reqMethod req = ''OPTIONS''")
  case True
  then show ?thesis by (simp add: ServeHTTP_def)
next
  case False
  have "callStaticCode CompiledStatic r' w req = callStaticCode CompiledStatic r w req"
    unfolding callStaticCode_def assms ..
  with False show ?thesis
    by (simp add: ServeHTTP_compiled_same)
qed

lemma addRoute_static_other:
  "routeTable path \<noteq> StaticTable \<Longrightarrow> static (addRoute m path h ms r) = static r"
  using addRoute_getTable [of StaticTable m path h ms r] by simp

lemma addCatchAll_updates:
  "catchAll (addCatchAll h ms r) =
     Some ((case catchAll r of None \<Rightarrow> emptyRoute | Some c \<Rightarrow> c)
       \<lparr>handlers := (handlers (case catchAll r of None \<Rightarrow> emptyRoute | Some c \<Rightarrow> c))
          (mGet := Some \<lparr>handler = composeHandler h (globalMWs r @ ms)\<rparr>,
           mPost := Some \<lparr>handler = composeHandler h (globalMWs r @ ms)\<rparr>,
           mPut := Some \<lparr>handler = composeHandler h (globalMWs r @ ms)\<rparr>,
           mDelete := Some \<lparr>handler = composeHandler h (globalMWs r @ ms)\<rparr>,
           mPatch := Some \<lparr>handler = composeHandler h (globalMWs r @ ms)\<rparr>)\<rparr>)"
  by (simp add: addCatchAll_def methodRange_def Let_def)

lemma addCatchAll_getHandler:
  assumes "m \<in> {''GET'', ''POST'', ''PUT'', ''DELETE'', ''PATCH''}"
    and "catchAll (addCatchAll h ms r) = Some ca"
  shows "getHandler ca m = Some \<lparr>handler = composeHandler h (globalMWs r @ ms)\<rparr>"
proof -
  have "\<And>i. i \<noteq> mAny \<Longrightarrow> handlers ca i = Some \<lparr>handler = composeHandler h (globalMWs r @ ms)\<rparr>"
    using assms(2) unfolding addCatchAll_slots by auto
  then show ?thesis
    using assms(1) by (auto simp: getHandler_def)
qed

lemma addCatchAll_dispatch:
  assumes "reqMethod req \<in> {''GET'', ''POST'', ''PUT'', ''DELETE'', ''PATCH''}"
    and "static r (Trim (urlPath req) ''/'') = None
         \<or> (\<exists>rt. static r (Trim (urlPath req) ''/'') = Some rt
                 \<and> getHandler rt (reqMethod req) = None)"
  shows "ServeHTTP (addCatchAll h ms r) w req
           = composeHandler h (globalMWs r @ ms) w (req\<lparr>ctxParams := Some (Trim (urlPath req) ''/'')\<rparr>)"
proof -
  obtain ca where ca: "catchAll (addCatchAll h ms r) = Some ca"
    by (simp add: addCatchAll_slots)
  have s: "static (addCatchAll h ms r) (Trim (urlPath req) ''/'') = None
         \<or> (\<exists>rt. static (addCatchAll h ms r) (Trim (urlPath req) ''/'') = Some rt
                 \<and> getHandler rt (reqMethod req) = None)"
    using assms(2) by simp
  show ?thesis
    using dispatch_catchAll [OF s ca addCatchAll_getHandler [OF assms(1) ca]] by simp
qed

lemma ANY_star: "ANY ''*'' h ms r = addCatchAll h ms r"
  by (simp add: ANY_def)

text \<open>
  C7. \<open>ANY\<close> with path \<open>*\<close> leaves a catch-all route (the former one, or a new
  empty one when there was none) whose five method slots hold the handler composed from
  the global middlewares, the given middlewares and the given handler. After it, a request
  with one of the five methods and no static handler under its trimmed path is served by
  that handler, with the trimmed path attached.
\<close>

theorem catchAll_registration:
  "catchAll (ANY ''*'' h ms r) =
     Some ((case catchAll r of None \<Rightarrow> emptyRoute | Some c \<Rightarrow> c)
       \<lparr>handlers := (handlers (case catchAll r of None \<Rightarrow> emptyRoute | Some c \<Rightarrow> c))
          (mGet := Some \<lparr>handler = composeHandler h (globalMWs r @ ms)\<rparr>,
           mPost := Some \<lparr>handler = composeHandler h (globalMWs r @ ms)\<rparr>,
           mPut := Some \<lparr>handler = composeHandler h (globalMWs r @ ms)\<rparr>,
           mDelete := Some \<lparr>handler = composeHandler h (globalMWs r @ ms)\<rparr>,
           mPatch := Some \<lparr>handler = composeHandler h (globalMWs r @ ms)\<rparr>)\<rparr>)
   \<and> static (ANY ''*'' h ms r) = static r
   \<and> (reqMethod req \<in> {''GET'', ''POST'', ''PUT'', ''DELETE'', ''PATCH''}
        \<and> (static r (Trim (urlPath req) ''/'') = None
           \<or> (\<exists>rt. static r (Trim (urlPath req) ''/'') = Some rt
                   \<and> getHandler rt (reqMethod req) = None))
      \<longrightarrow> ServeHTTP (ANY ''*'' h ms r) w req
            = composeHandler h (globalMWs r @ ms) w
                (req\<lparr>ctxParams := Some (Trim (urlPath req) ''/'')\<rparr>))"
proof (intro conjI impI)
  show "catchAll (ANY ''*'' h ms r) =
     Some ((case catchAll r of None \<Rightarrow> emptyRoute | Some c \<Rightarrow> c)
       \<lparr>handlers := (handlers (case catchAll r of None \<Rightarrow> emptyRoute | Some c \<Rightarrow> c))
          (mGet := Some \<lparr>handler = composeHandler h (globalMWs r @ ms)\<rparr>,
           mPost := Some \<lparr>handler = composeHandler h (globalMWs r @ ms)\<rparr>,
           mPut := Some \<lparr>handler = composeHandler h (globalMWs r @ ms)\<rparr>,
           mDelete := Some \<lparr>handler = composeHandler h (globalMWs r @ ms)\<rparr>,
           mPatch := Some \<lparr>handler = composeHandler h (globalMWs r @ ms)\<rparr>)\<rparr>)"
    by (simp only: ANY_star addCatchAll_updates)
  show "static (ANY ''*'' h ms r) = static r"
    by (simp add: ANY_star)
  assume "reqMethod req \<in> {''GET'', ''POST'', ''PUT'', ''DELETE'', ''PATCH''}
        \<and> (static r (Trim (urlPath req) ''/'') = None
           \<or> (\<exists>rt. static r (Trim (urlPath req) ''/'') = Some rt
                   \<and> getHandler rt (reqMethod req) = None))"
  then show "ServeHTTP (ANY ''*'' h ms r) w req
            = composeHandler h (globalMWs r @ ms) w
                (req\<lparr>ctxParams := Some (Trim (urlPath req) ''/'')\<rparr>)"
    by (simp only: ANY_star addCatchAll_dispatch)
qed

theorem catchAll_registration_witness:
  "catchAll (GET ''/api'' (writeBody ''Welcome'') [] New) = None
   \<and> reqMethod (newRequest ''PUT'' ''/a/b/'') \<in> {''GET'', ''POST'', ''PUT'', ''DELETE'', ''PATCH''}
   \<and> static (GET ''/api'' (writeBody ''Welcome'') [] New)
        (Trim (urlPath (newRequest ''PUT'' ''/a/b/'')) ''/'') = None
   \<and> ServeHTTP (ANY ''*'' (showParams ''Not found: '') [] (GET ''/api'' (writeBody ''Welcome'') [] New))
        newRecorder (newRequest ''PUT'' ''/a/b/'')
       = showParams ''Not found: '' newRecorder (newRequest ''PUT'' ''/a/b/''\<lparr>ctxParams := Some ''a/b''\<rparr>)
   \<and> wBody (ServeHTTP (ANY ''*'' (showParams ''Not found: '') [] (GET ''/api'' (writeBody ''Welcome'') [] New))
        newRecorder (newRequest ''PUT'' ''/a/b/'')) = ''Not found: a/b''"
proof -
  let ?r = "GET ''/api'' (writeBody ''Welcome'') [] New"
  let ?req = "newRequest ''PUT'' ''/a/b/''"
  have a: "catchAll ?r = None"
    by (simp add: GET_def)
  have b: "reqMethod ?req \<in> {''GET'', ''POST'', ''PUT'', ''DELETE'', ''PATCH''}"
    by (simp add: newRequest_def)
  have t: "Trim (urlPath ?req) ''/'' = ''a/b''"
    by (simp add: newRequest_def Trim_def)
  have c: "static ?r (Trim (urlPath ?req) ''/'') = None"
    unfolding t by (simp add: eval_strings eval_router)
  have g: "globalMWs ?r = []"
    by (simp add: GET_def)
  have d: "wBody (showParams ''Not found: '' newRecorder (?req\<lparr>ctxParams := Some ''a/b''\<rparr>))
             = ''Not found: a/b''"
    by (simp add: showParams_def GetParams_def Write_def WriteHeader_def newRecorder_def)
  show ?thesis
    using a b c d catchAll_registration [of "showParams ''Not found: ''" "[]" ?r ?req newRecorder]
    by (simp add: t g)
qed

text \<open>
  C8. Serving a request does not depend on the tables of parameterized and of wildcard
  routes: replacing them by any others changes nothing, and so does registering a route
  whose path is parameterized or a wildcard. A request that is not OPTIONS and has no
  static handler goes to the catch-all handler of its method when there is one, and to
  \<open>http.NotFound\<close> otherwise.
\<close>

theorem params_wildcards_not_consulted:
  "ServeHTTP (r\<lparr>params := ps, wildcards := ws\<rparr>) w req = ServeHTTP r w req
   \<and> (routeTable path \<noteq> StaticTable
        \<longrightarrow> ServeHTTP (addRoute m path h ms r) w req = ServeHTTP r w req)
   \<and> (reqMethod req \<noteq> ''OPTIONS''
        \<and> (static r (Trim (urlPath req) ''/'') = None
           \<or> (\<exists>rt. static r (Trim (urlPath req) ''/'') = Some rt
                   \<and> getHandler rt (reqMethod req) = None))
        \<longrightarrow> ServeHTTP (r\<lparr>params := ps, wildcards := ws\<rparr>) w req
             = (case (case catchAll r of
                        Some ca \<Rightarrow> getHandler ca (reqMethod req)
                      | None \<Rightarrow> None) of
                  Some hc \<Rightarrow> handler hc w (req\<lparr>ctxParams := Some (Trim (urlPath req) ''/'')\<rparr>)
                | None \<Rightarrow> NotFound w req))"
proof (intro conjI impI)
  show same: "ServeHTTP (r\<lparr>params := ps, wildcards := ws\<rparr>) w req = ServeHTTP r w req"
    by (rule ServeHTTP_depends) simp_all
  show "ServeHTTP (addRoute m path h ms r) w req = ServeHTTP r w req"
    if "routeTable path \<noteq> StaticTable"
    using that by (intro ServeHTTP_depends addRoute_static_other addRoute_catchAll)
  show "ServeHTTP (r\<lparr>params := ps, wildcards := ws\<rparr>) w req
             = (case (case catchAll r of
                        Some ca \<Rightarrow> getHandler ca (reqMethod req)
                      | None \<Rightarrow> None) of
                  Some hc \<Rightarrow> handler hc w (req\<lparr>ctxParams := Some (Trim (urlPath req) ''/'')\<rparr>)
                | None \<Rightarrow> NotFound w req)"
    if "reqMethod req \<noteq> ''OPTIONS''
        \<and> (static r (Trim (urlPath req) ''/'') = None
           \<or> (\<exists>rt. static r (Trim (urlPath req) ''/'') = Some rt
                   \<and> getHandler rt (reqMethod req) = None))"
    unfolding same using that
    by (auto simp: ServeHTTP_compiled_same callStaticCode_def)
qed

theorem params_wildcards_not_consulted_witness:
  "routeTable ''/users/:id'' = ParamsTable \<and> routeTable ''/files/*'' = WildcardsTable
   \<and> params paramAndWildcard ''users/:id'' \<noteq> None
   \<and> wildcards paramAndWildcard ''files/'' \<noteq> None
   \<and> reqMethod (newRequest ''GET'' ''/users/123'') \<noteq> ''OPTIONS''
   \<and> static New (Trim (urlPath (newRequest ''GET'' ''/users/123'')) ''/'') = None
   \<and> ServeHTTP paramAndWildcard newRecorder (newRequest ''GET'' ''/users/123'')
       = NotFound newRecorder (newRequest ''GET'' ''/users/123'')
   \<and> ServeHTTP paramAndWildcard newRecorder (newRequest ''GET'' ''/files/docs/report.pdf'')
       = NotFound newRecorder (newRequest ''GET'' ''/files/docs/report.pdf'')
   \<and> wBody (ServeHTTP (ANY ''*'' (showParams ''Caught path: '') [] paramAndWildcard) newRecorder
        (newRequest ''GET'' ''/users/123'')) = ''Caught path: users/123''"
proof -
  let ?r1 = "GET ''/users/:id'' (showParams ''User: '') [] New"
  let ?req = "newRequest ''GET'' ''/users/123''"
  let ?req2 = "newRequest ''GET'' ''/files/docs/report.pdf''"
  have a: "routeTable ''/users/:id'' \<noteq> StaticTable" "routeTable ''/files/*'' \<noteq> StaticTable"
    and a': "routeTable ''/users/:id'' = ParamsTable" "routeTable ''/files/*'' = WildcardsTable"
    by (simp_all add: eval_strings)
  have b: "params paramAndWildcard ''users/:id'' \<noteq> None"
    "wildcards paramAndWildcard ''files/'' \<noteq> None"
    by (simp_all add: paramAndWildcard_def eval_strings eval_router)
  have c: "reqMethod ?req \<noteq> ''OPTIONS''" "reqMethod ?req2 \<noteq> ''OPTIONS''"
    by (simp_all add: newRequest_def)
  have d: "static New (Trim (urlPath ?req) ''/'') = None"
    "static New (Trim (urlPath ?req2) ''/'') = None"
    by simp_all
  have n: "ServeHTTP New newRecorder ?req = NotFound newRecorder ?req"
    "ServeHTTP New newRecorder ?req2 = NotFound newRecorder ?req2"
    using c by (simp_all add: ServeHTTP_compiled_same callStaticCode_def)
  have e: "ServeHTTP paramAndWildcard newRecorder ?req = NotFound newRecorder ?req"
    using params_wildcards_not_consulted
        [where r = ?r1 and w = newRecorder and req = ?req and path = "''/files/*''"
          and m = mGet and h = "showParams ''File: ''" and ms = "[]"]
      params_wildcards_not_consulted
        [where r = New and w = newRecorder and req = ?req and path = "''/users/:id''"
          and m = mGet and h = "showParams ''User: ''" and ms = "[]"]
      a n
    by (simp add: paramAndWildcard_def GET_def)
  have f: "ServeHTTP paramAndWildcard newRecorder ?req2 = NotFound newRecorder ?req2"
    using params_wildcards_not_consulted
        [where r = ?r1 and w = newRecorder and req = ?req2 and path = "''/files/*''"
          and m = mGet and h = "showParams ''File: ''" and ms = "[]"]
      params_wildcards_not_consulted
        [where r = New and w = newRecorder and req = ?req2 and path = "''/users/:id''"
          and m = mGet and h = "showParams ''User: ''" and ms = "[]"]
      a n
    by (simp add: paramAndWildcard_def GET_def)
  have g: "wBody (ServeHTTP (ANY ''*'' (showParams ''Caught path: '') [] paramAndWildcard) newRecorder
        ?req) = ''Caught path: users/123''"
    by (simp add: paramAndWildcard_def eval_strings eval_router eval_serve)
  show ?thesis
    using a' b c(1) d(1) e f g by (intro conjI)
qed

lemma groupANY_star: "groupANY g ''*'' h ms r = addCatchAll h (mws g @ ms) r"
  by (simp add: groupANY_def groupAddCatchAll_def)

text \<open>
  C10. \<open>ANY\<close> with path \<open>*\<close> on a group is \<open>ANY\<close> with path \<open>*\<close> on the
  router with the group's middlewares put before the given ones. The prefix of the group
  has no effect: the three tables keep their keys, the catch-all handler is composed from
  the global middlewares, then the group's, then the given ones, and it serves every
  request with one of the five methods and no static handler, whatever its path.
\<close>

theorem group_catchAll_ignores_prefix:
  "groupANY g ''*'' h ms r = ANY ''*'' h (mws g @ ms) r
   \<and> groupANY (g\<lparr>prefix := p\<rparr>) ''*'' h ms r = groupANY g ''*'' h ms r
   \<and> static (groupANY g ''*'' h ms r) = static r
   \<and> params (groupANY g ''*'' h ms r) = params r
   \<and> wildcards (groupANY g ''*'' h ms r) = wildcards r
   \<and> catchAll (groupANY g ''*'' h ms r) =
       Some ((case catchAll r of None \<Rightarrow> emptyRoute | Some c \<Rightarrow> c)
         \<lparr>handlers := (handlers (case catchAll r of None \<Rightarrow> emptyRoute | Some c \<Rightarrow> c))
            (mGet := Some \<lparr>handler = composeHandler h (globalMWs r @ mws g @ ms)\<rparr>,
             mPost := Some \<lparr>handler = composeHandler h (globalMWs r @ mws g @ ms)\<rparr>,
             mPut := Some \<lparr>handler = composeHandler h (globalMWs r @ mws g @ ms)\<rparr>,
             mDelete := Some \<lparr>handler = composeHandler h (globalMWs r @ mws g @ ms)\<rparr>,
             mPatch := Some \<lparr>handler = composeHandler h (globalMWs r @ mws g @ ms)\<rparr>)\<rparr>)
   \<and> (reqMethod req \<in> {''GET'', ''POST'', ''PUT'', ''DELETE'', ''PATCH''}
        \<and> (static r (Trim (urlPath req) ''/'') = None
           \<or> (\<exists>rt. static r (Trim (urlPath req) ''/'') = Some rt
                   \<and> getHandler rt (reqMethod req) = None))
      \<longrightarrow> ServeHTTP (groupANY g ''*'' h ms r) w req
            = composeHandler h (globalMWs r @ mws g @ ms) w
                (req\<lparr>ctxParams := Some (Trim (urlPath req) ''/'')\<rparr>))"
proof (intro conjI impI)
  show "groupANY g ''*'' h ms r = ANY ''*'' h (mws g @ ms) r"
    by (simp only: groupANY_star ANY_star)
  show "groupANY (g\<lparr>prefix := p\<rparr>) ''*'' h ms r = groupANY g ''*'' h ms r"
    by (simp add: groupANY_star)
  show "static (groupANY g ''*'' h ms r) = static r"
    and "params (groupANY g ''*'' h ms r) = params r"
    and "wildcards (groupANY g ''*'' h ms r) = wildcards r"
    by (simp_all add: groupANY_star)
  show "catchAll (groupANY g ''*'' h ms r) =
       Some ((case catchAll r of None \<Rightarrow> emptyRoute | Some c \<Rightarrow> c)
         \<lparr>handlers := (handlers (case catchAll r of None \<Rightarrow> emptyRoute | Some c \<Rightarrow> c))
            (mGet := Some \<lparr>handler = composeHandler h (globalMWs r @ mws g @ ms)\<rparr>,
             mPost := Some \<lparr>handler = composeHandler h (globalMWs r @ mws g @ ms)\<rparr>,
             mPut := Some \<lparr>handler = composeHandler h (globalMWs r @ mws g @ ms)\<rparr>,
             mDelete := Some \<lparr>handler = composeHandler h (globalMWs r @ mws g @ ms)\<rparr>,
             mPatch := Some \<lparr>handler = composeHandler h (globalMWs r @ mws g @ ms)\<rparr>)\<rparr>)"
    by (simp only: groupANY_star addCatchAll_updates)
  assume "reqMethod req \<in> {''GET'', ''POST'', ''PUT'', ''DELETE'', ''PATCH''}
        \<and> (static r (Trim (urlPath req) ''/'') = None
           \<or> (\<exists>rt. static r (Trim (urlPath req) ''/'') = Some rt
                   \<and> getHandler rt (reqMethod req) = None))"
  then show "ServeHTTP (groupANY g ''*'' h ms r) w req
            = composeHandler h (globalMWs r @ mws g @ ms) w
                (req\<lparr>ctxParams := Some (Trim (urlPath req) ''/'')\<rparr>)"
    by (simp only: groupANY_star addCatchAll_dispatch)
qed

theorem group_catchAll_ignores_prefix_witness:
  "prefix adminGroup = ''admin''
   \<and> reqMethod (newRequest ''GET'' ''/other/page'') \<in> {''GET'', ''POST'', ''PUT'', ''DELETE'', ''PATCH''}
   \<and> static New (Trim (urlPath (newRequest ''GET'' ''/other/page'')) ''/'') = None
   \<and> static (groupANY adminGroup ''*'' (showParams ''Caught: '') [tagMW ''L''] New) = Map.empty
   \<and> wBody (ServeHTTP (groupANY adminGroup ''*'' (showParams ''Caught: '') [tagMW ''L''] New)
        newRecorder (newRequest ''GET'' ''/other/page'')) = ''GLCaught: other/page''"
proof -
  let ?req = "newRequest ''GET'' ''/other/page''"
  have a: "prefix adminGroup = ''admin''"
    by (simp add: adminGroup_def newGroup_def Trim_def)
  have b: "reqMethod ?req \<in> {''GET'', ''POST'', ''PUT'', ''DELETE'', ''PATCH''}"
    by (simp add: newRequest_def)
  have c: "static New (Trim (urlPath ?req) ''/'') = None"
    by simp
  have t: "Trim (urlPath ?req) ''/'' = ''other/page''"
    by (simp add: newRequest_def Trim_def)
  have d: "wBody (composeHandler (showParams ''Caught: '') ([] @ [tagMW ''G''] @ [tagMW ''L''])
             newRecorder (?req\<lparr>ctxParams := Some ''other/page''\<rparr>)) = ''GLCaught: other/page''"
    by (simp add: composeHandler_def showParams_def tagMW_def GetParams_def Write_def
        WriteHeader_def newRecorder_def StatusOK_def)
  have m: "mws adminGroup = [tagMW ''G'']"
    by (simp add: adminGroup_def newGroup_def)
  note T = group_catchAll_ignores_prefix
        [where g = adminGroup and h = "showParams ''Caught: ''" and ms = "[tagMW ''L'']"
           and r = New and req = ?req and w = newRecorder and p = "''v1''"]
  have e: "ServeHTTP (groupANY adminGroup ''*'' (showParams ''Caught: '') [tagMW ''L''] New)
             newRecorder ?req
           = composeHandler (showParams ''Caught: '') (globalMWs New @ mws adminGroup @ [tagMW ''L''])
               newRecorder (?req\<lparr>ctxParams := Some (Trim (urlPath ?req) ''/'')\<rparr>)"
    using T b c by blast
  have "static (groupANY adminGroup ''*'' (showParams ''Caught: '') [tagMW ''L''] New) = static New"
    using T by blast
  then have f: "static (groupANY adminGroup ''*'' (showParams ''Caught: '') [tagMW ''L''] New) = Map.empty"
    by simp
  have g: "wBody (ServeHTTP (groupANY adminGroup ''*'' (showParams ''Caught: '') [tagMW ''L''] New)
        newRecorder ?req) = ''GLCaught: other/page''"
    using d unfolding e t m by simp
  show ?thesis
    using a b c f g by (intro conjI)
qed

text \<open>
  C3. The order in which a route runs its middlewares, at three concrete call sequences;
  each middleware prints its tag and the handler prints \<open>h\<close>. With \<open>Use\<close> called
  twice after the registration, and with \<open>Use\<close> called once before and once after it,
  the middleware \<open>A\<close> runs twice. With both calls of \<open>Use\<close> before the registration
  the order is global, then local, each once.
\<close>

theorem use_after_registration_repeats_middleware:
  "wBody (ServeHTTP
      (routerAfter [CallGET ''/x'' (writeBody ''h'') [], CallUse [tagMW ''A''], CallUse [tagMW ''B'']])
      newRecorder (newRequest ''GET'' ''/x'')) = ''ABAh''
   \<and> wBody (ServeHTTP
      (routerAfter [CallUse [tagMW ''A''], CallGET ''/x'' (writeBody ''h'') [tagMW ''C''],
                    CallUse [tagMW ''B'']])
      newRecorder (newRequest ''GET'' ''/x'')) = ''ABACh''
   \<and> wBody (ServeHTTP
      (routerAfter [CallUse [tagMW ''A''], CallUse [tagMW ''B''],
                    CallGET ''/x'' (writeBody ''h'') [tagMW ''C'']])
      newRecorder (newRequest ''GET'' ''/x'')) = ''ABCh''"
  by (simp add: routerAfter_def eval_strings eval_router eval_serve)

lemma Use_rewraps_whole_list:
  "static r k = Some rt \<Longrightarrow> handlers rt i = Some old \<Longrightarrow>
     \<exists>rt'. static (Use ms r) k = Some rt'
        \<and> handlers rt' i = Some \<lparr>handler = composeHandler (handler old) (globalMWs r @ ms)\<rparr>"
  by (simp add: recomposeTable_apply recomposeRoute_def)

text \<open>
  C9. In the router that \<open>New\<close> followed by any calls of the registration functions
  of the router and of groups and of \<open>Use\<close> leaves, the static code is set exactly
  when the static table is not empty. A fresh router has none.
\<close>

theorem compiled_iff_static_nonempty:
  "(staticCode (routerAfter cs) \<noteq> None) = (dom (static (routerAfter cs)) \<noteq> {})
   \<and> staticCode New = None"
  using routerAfter_compiled [of cs] by (simp add: compiledIffStatic_def)

theorem compiled_iff_static_nonempty_witness:
  "dom (static (routerAfter exampleCalls)) = {''api''}
   \<and> staticCode (routerAfter exampleCalls) \<noteq> None
   \<and> dom (static (routerAfter
        [CallANY ''*'' (showParams ''Not found: '') [],
         CallGET ''/users/:id'' (showParams ''User: '') [],
         GroupGET adminGroup ''/files/*'' (showParams ''File: '') [],
         CallUse [tagMW ''A'']])) = {}
   \<and> staticCode (routerAfter
        [CallANY ''*'' (showParams ''Not found: '') [],
         CallGET ''/users/:id'' (showParams ''User: '') [],
         GroupGET adminGroup ''/files/*'' (showParams ''File: '') [],
         CallUse [tagMW ''A'']]) = None"
proof -
  let ?cs = "[CallANY ''*'' (showParams ''Not found: '') [],
         CallGET ''/users/:id'' (showParams ''User: '') [],
         GroupGET adminGroup ''/files/*'' (showParams ''File: '') [],
         CallUse [tagMW ''A'']]"
  have a: "dom (static (routerAfter exampleCalls)) = {''api''}"
    by (simp add: routerAfter_exampleCalls exampleRouter_def eval_strings eval_router)
  have b: "dom (static (routerAfter ?cs)) = {}"
    by (simp add: routerAfter_def groupGET_def groupAddRoute_def adminGroup_def newGroup_def
        eval_strings eval_router)
  show ?thesis
    using a b compiled_iff_static_nonempty [of exampleCalls] compiled_iff_static_nonempty [of ?cs]
    by simp
qed

end
